theory Spec2Isabelle
  imports Main "HOL-Library.Sublist"
begin

section \<open>Strings and characters\<close>

text \<open>
  A JavaScript string is modelled as a \<^typ>\<open>string\<close>: a list of code units, restricted to
  the code units below 256 (the Latin-1 range) that a \<^typ>\<open>char\<close> can hold. The
  built-in string operations the server uses are written out on that range.
\<close>

definition charCode :: "char \<Rightarrow> nat" where
  "charCode c = of_char c"

definition DQUOTE :: char where "DQUOTE = CHR 0x22"
definition SQUOTE :: char where "SQUOTE = CHR 0x27"
definition BACKSLASH :: char where "BACKSLASH = CHR 0x5C"
definition NL :: char where "NL = CHR 0x0A"

text \<open>\<open>String.prototype.toLowerCase\<close> on code units below 256: A-Z and the Latin-1
  capitals (0xC0-0xDE without the multiplication sign 0xD7) move up by 0x20.\<close>

definition lowerChar :: "char \<Rightarrow> char" where
  "lowerChar c =
     (if (65 \<le> charCode c \<and> charCode c \<le> 90) \<or>
         (192 \<le> charCode c \<and> charCode c \<le> 222 \<and> charCode c \<noteq> 215)
      then char_of (charCode c + 32) else c)"

definition toLowerCase :: "string \<Rightarrow> string" where
  "toLowerCase s = map lowerChar s"

text \<open>The regular expression class \<open>\s\<close> on code units below 256; \<open>trim\<close> removes the
  same characters.\<close>

definition isWhitespace :: "char \<Rightarrow> bool" where
  "isWhitespace c = (charCode c \<in> {9, 10, 11, 12, 13, 32, 160})"

text \<open>\<open>s.trim() === ''\<close>.\<close>

definition trimIsEmpty :: "string \<Rightarrow> bool" where
  "trimIsEmpty s = list_all isWhitespace s"

text \<open>\<open>Array.prototype.join\<close>.\<close>

fun joinWith :: "string \<Rightarrow> string list \<Rightarrow> string" where
  "joinWith sep [] = []"
| "joinWith sep [x] = x"
| "joinWith sep (x # y # ys) = x @ sep @ joinWith sep (y # ys)"

section \<open>Numbers: \<open>parseInt\<close> and template rendering\<close>

datatype number = NaN | Num int

definition isDigit :: "char \<Rightarrow> bool" where
  "isDigit c = (48 \<le> charCode c \<and> charCode c \<le> 57)"

fun digitsValue :: "string \<Rightarrow> int \<Rightarrow> int" where
  "digitsValue [] acc = acc"
| "digitsValue (c # cs) acc = digitsValue cs (acc * 10 + (int (charCode c) - 48))"

text \<open>\<open>parseInt(s, 10)\<close>: leading whitespace is skipped, one sign is read, then the longest
  run of decimal digits; no digit gives \<open>NaN\<close>. The value is the mathematical integer
  of the digits. That is the number the code has as long as its magnitude is at most 2^53;
  a longer run of digits is rounded to a double by the code and is not modelled, so a
  property that reads the value assumes this bound.\<close>

definition parseInt :: "string \<Rightarrow> number" where
  "parseInt s =
     (let t = dropWhile isWhitespace s;
          neg = (case t of [] \<Rightarrow> False | c # _ \<Rightarrow> c = CHR ''-'');
          u = (case t of [] \<Rightarrow> [] | c # cs \<Rightarrow> if c = CHR ''-'' \<or> c = CHR ''+'' then cs else t);
          ds = takeWhile isDigit u
      in if ds = [] then NaN
         else Num (if neg then - digitsValue ds 0 else digitsValue ds 0))"

function showNat :: "nat \<Rightarrow> string" where
  "showNat n = (if n < 10 then [char_of (48 + n)] else showNat (n div 10) @ [char_of (48 + n mod 10)])"
  by pat_completeness auto
termination
  by (relation "measure id") auto

declare showNat.simps [simp del]

text \<open>The rendering of a number inside a template literal: plain decimal digits, which is
  what the code prints for every integer of magnitude at most 2^53 (the exponent notation
  that starts at 10^21 lies beyond the modelled range).\<close>

fun numberToString :: "number \<Rightarrow> string" where
  "numberToString NaN = ''NaN''"
| "numberToString (Num i) = (if i < 0 then CHR ''-'' # showNat (nat (- i)) else showNat (nat i))"

section \<open>Shared constants (utils/constants.ts)\<close>

definition SHADOWGIT_DIR :: string where
  "SHADOWGIT_DIR = ''.shadowgit.git''"

definition MAX_BUFFER_SIZE :: nat where
  "MAX_BUFFER_SIZE = 10 * 1024 * 1024"

definition MAX_COMMAND_LENGTH :: nat where
  "MAX_COMMAND_LENGTH = 1000"

section \<open>Security constants (core/security-constants.ts)\<close>

text \<open>The set keeps its insertion order, which \<open>Array.from\<close> reads back.\<close>

definition SAFE_COMMANDS :: "string list" where
  "SAFE_COMMANDS =
     [''log'', ''show'', ''diff'', ''status'',
      ''describe'', ''rev-parse'', ''ls-files'',
      ''ls-tree'', ''cat-file'', ''show-branch'', ''shortlog'',
      ''rev-list'', ''blame'']"

definition DANGEROUS_PATTERNS :: "string list" where
  "DANGEROUS_PATTERNS =
     [''--upload-pack'',
      ''--receive-pack'',
      ''--exec'',
      ''-c'',
      ''--config'',
      ''-e'',
      ''--git-dir'',
      ''--work-tree'',
      ''-C'']"

definition isDangerousArg :: "string \<Rightarrow> bool" where
  "isDangerousArg arg =
     (let lowerArg = toLowerCase arg
      in list_ex (\<lambda>pattern. lowerArg = pattern \<or> prefix (pattern @ ''='') lowerArg)
           DANGEROUS_PATTERNS)"

section \<open>The command tokenizer (the string branch of \<open>GitExecutor.execute\<close>)\<close>

text \<open>The character class of the sanitising \<open>replace\<close>:
  \<open>[\x00-\x08\x0B\x0C\x0E-\x1F\x7F]\<close>.\<close>

definition isControlChar :: "char \<Rightarrow> bool" where
  "isControlChar c =
     (charCode c \<le> 8 \<or> charCode c = 11 \<or> charCode c = 12 \<or>
      (14 \<le> charCode c \<and> charCode c \<le> 31) \<or> charCode c = 127)"

definition sanitize :: "string \<Rightarrow> string" where
  "sanitize command = filter (\<lambda>c. \<not> isControlChar c) command"

text \<open>The variables of the parsing loop. \<open>quoteChar\<close> is the empty string or one character.\<close>

record parser =
  args :: "string list"
  current :: string
  inQuotes :: bool
  quoteChar :: string

definition parser0 :: parser where
  "parser0 = \<lparr>args = [], current = [], inQuotes = False, quoteChar = []\<rparr>"

text \<open>\<open>nextChar === quoteChar\<close>, where \<open>nextChar\<close> is undefined at the end of the string.\<close>

definition nextIs :: "string \<Rightarrow> string \<Rightarrow> bool" where
  "nextIs rest q = (case rest of [] \<Rightarrow> False | n # _ \<Rightarrow> [n] = q)"

text \<open>The loop over the sanitised string: the first argument is the part of the string from
  index \<open>i\<close> on; the escaped quote skips one more character.\<close>

fun parseLoop :: "string \<Rightarrow> parser \<Rightarrow> parser" where
  "parseLoop [] p = p"
| "parseLoop (c # rest) p =
     (if \<not> inQuotes p \<and> (c = DQUOTE \<or> c = SQUOTE) then
        parseLoop rest (p\<lparr>inQuotes := True, quoteChar := [c]\<rparr>)
      else if inQuotes p \<and> c = BACKSLASH \<and> nextIs rest (quoteChar p) then
        parseLoop (drop 1 rest) (p\<lparr>current := current p @ quoteChar p\<rparr>)
      else if inQuotes p \<and> [c] = quoteChar p then
        parseLoop rest (p\<lparr>inQuotes := False, quoteChar := []\<rparr>)
      else if \<not> inQuotes p \<and> isWhitespace c then
        (if current p \<noteq> [] then parseLoop rest (p\<lparr>args := args p @ [current p], current := []\<rparr>)
         else parseLoop rest p)
      else parseLoop rest (p\<lparr>current := current p @ [c]\<rparr>))"

definition tokenize :: "string \<Rightarrow> string list" where
  "tokenize command =
     (let p = parseLoop (sanitize command) parser0
      in if current p \<noteq> [] then args p @ [current p] else args p)"

section \<open>The runtime the server calls into\<close>

text \<open>
  What \<open>execFileSync\<close> is called with: the program, its argument vector and the options.
  \<open>env\<close> is the environment of the child as a map from variable names to values.
\<close>

record invocation =
  program :: string
  argv :: "string list"
  cwd :: string
  encoding :: string
  timeout :: number
  maxBuffer :: nat
  env :: "string \<rightharpoonup> string"

text \<open>A property of a thrown object that the classifier reads through \<open>in\<close> and \<open>?.\<close>:
  missing, present without a value (null or undefined), or present with its text.\<close>

datatype field = Absent | Nullish | Text string

text \<open>
  A thrown object, by the properties the classifier looks at: \<open>code\<close> and \<open>signal\<close> are
  \<open>None\<close> when they are not strings, \<open>hasStatus\<close> is \<open>'status' in error\<close>, \<open>message\<close> is
  \<open>None\<close> when it is missing, and \<open>rendered\<close> is the text of \<open>${error}\<close>.
\<close>

record exec_error =
  code :: "string option"
  signal :: "string option"
  stderr :: field
  stdout :: field
  hasStatus :: bool
  message :: "string option"
  rendered :: string

text \<open>What a \<open>catch\<close> clause can receive: an object, or a value that is falsy or not an
  object, known by its rendering.\<close>

datatype thrown = Object exec_error | NonObject string

datatype exec_result = Returns string | Throws thrown

text \<open>
  The world outside the process (file system, repositories on disk) is a value of type
  \<open>'w\<close>; the runtime gives the functions that read and change it, and the functions of
  the \<open>path\<close> and \<open>os\<close> modules, which depend on the platform.
\<close>

record 'w runtime =
  existsSync :: "'w \<Rightarrow> string \<Rightarrow> bool"
  execFileSync :: "'w \<Rightarrow> invocation \<Rightarrow> exec_result \<times> 'w"
  process_env :: "string \<rightharpoonup> string"
  path_join :: "string \<Rightarrow> string \<Rightarrow> string"
  path_normalize :: "string \<Rightarrow> string"
  path_isAbsolute :: "string \<Rightarrow> bool"
  homedir :: string

text \<open>The state threaded through the executor: the world, and the log of the invocations of
  the git binary made so far, oldest first.\<close>

record 'w state =
  world :: "'w"
  calls :: "invocation list"

text \<open>\<open>parseInt(process.env.SHADOWGIT_TIMEOUT || '10000', 10)\<close>, read once when the module
  is loaded.\<close>

definition TIMEOUT_MS :: "'w runtime \<Rightarrow> number" where
  "TIMEOUT_MS rt =
     parseInt (case process_env rt ''SHADOWGIT_TIMEOUT'' of
                 None \<Rightarrow> ''10000''
               | Some v \<Rightarrow> if v = [] then ''10000'' else v)"

section \<open>Git command execution (core/git-executor.ts)\<close>

datatype command = Str string | Arr "string list"

text \<open>The first part of \<open>execute\<close>: the argument vector of a command, or the text that is
  returned at once for an external string that is too long.\<close>

definition parseCommand :: "command \<Rightarrow> bool \<Rightarrow> string + string list" where
  "parseCommand cmd isInternal =
     (case cmd of
        Arr a \<Rightarrow> Inr a
      | Str s \<Rightarrow>
          if \<not> isInternal \<and> length s > MAX_COMMAND_LENGTH
          then Inl (''Error: Command too long (max '' @ showNat MAX_COMMAND_LENGTH @ '' characters).'')
          else Inr (tokenize s))"

text \<open>The string of a field after \<open>?.toString() || ''\<close>.\<close>

fun fieldText :: "field \<Rightarrow> string" where
  "fieldText (Text s) = s"
| "fieldText _ = []"

text \<open>The \<open>catch\<close> clause of \<open>execute\<close>.\<close>

definition classifyError :: "'w runtime \<Rightarrow> thrown \<Rightarrow> string" where
  "classifyError rt error =
     (case error of
        NonObject r \<Rightarrow> ''Error: '' @ r
      | Object execError \<Rightarrow>
          if code execError = Some ''ETIMEDOUT'' \<or> signal execError = Some ''SIGTERM'' then
            ''Error: Command timed out after '' @ numberToString (TIMEOUT_MS rt) @ ''ms.''
          else if stderr execError \<noteq> Absent \<or> stdout execError \<noteq> Absent \<or> hasStatus execError then
            (let err = fieldText (stderr execError);
                 out = fieldText (stdout execError);
                 msg = (case message execError of
                          None \<Rightarrow> ''Unknown error''
                        | Some m \<Rightarrow> if m = [] then ''Unknown error'' else m)
             in ''Error executing git command:'' @ [NL] @ msg @ [NL]
                @ (if err \<noteq> [] then [NL] @ ''Error output:'' @ [NL] @ err else [])
                @ [NL]
                @ (if out \<noteq> [] then [NL] @ ''Partial output:'' @ [NL] @ out else []))
          else ''Error: '' @ rendered execError)"

text \<open>The environment given to the child: the process environment, the four fixed
  overrides, then the caller's additions; a later binding replaces an earlier one.\<close>

definition childEnv :: "'w runtime \<Rightarrow> (string \<rightharpoonup> string) \<Rightarrow> (string \<rightharpoonup> string)" where
  "childEnv rt additionalEnv =
     process_env rt
       ++ [''GIT_TERMINAL_PROMPT'' \<mapsto> ''0'',
           ''GIT_SSH_COMMAND'' \<mapsto> ''ssh -o BatchMode=yes'',
           ''GIT_PAGER'' \<mapsto> ''cat'',
           ''PAGER'' \<mapsto> ''cat'']
       ++ additionalEnv"

text \<open>The call \<open>execFileSync('git', [...], {...})\<close> of \<open>execute\<close>, for the argument
  vector \<open>as\<close> that passed the checks.\<close>

definition gitInvocation ::
  "'w runtime \<Rightarrow> string \<Rightarrow> string list \<Rightarrow> (string \<rightharpoonup> string) \<Rightarrow> invocation"
where
  "gitInvocation rt repoPath as additionalEnv =
     (let gitDir = path_join rt repoPath SHADOWGIT_DIR
      in \<lparr>program = ''git'',
          argv = [''--git-dir='' @ gitDir, ''--work-tree='' @ repoPath] @ as,
          cwd = repoPath,
          encoding = ''utf-8'',
          timeout = TIMEOUT_MS rt,
          maxBuffer = MAX_BUFFER_SIZE,
          env = childEnv rt additionalEnv\<rparr>)"

text \<open>\<open>GitExecutor.execute\<close>: the text it returns and the state it leaves. The binary is
  invoked exactly where an entry is appended to \<open>calls\<close>.\<close>

definition execute ::
  "'w runtime \<Rightarrow> command \<Rightarrow> string \<Rightarrow> bool \<Rightarrow> (string \<rightharpoonup> string) \<Rightarrow> 'w state \<Rightarrow> string \<times> 'w state"
where
  "execute rt cmd repoPath isInternal additionalEnv st =
     (case parseCommand cmd isInternal of
        Inl tooLong \<Rightarrow> (tooLong, st)
      | Inr as \<Rightarrow>
          (case as of
             [] \<Rightarrow> (''Error: No command provided.'', st)
           | gitCommand # _ \<Rightarrow>
               if list_ex isDangerousArg as then
                 (''Error: Command contains potentially dangerous arguments.'', st)
               else if \<not> isInternal \<and> gitCommand \<notin> set SAFE_COMMANDS then
                 (''Error: Command '' @ [SQUOTE] @ gitCommand @ [SQUOTE]
                    @ '' is not allowed. Only read-only commands are permitted.''
                    @ [NL, NL] @ ''Allowed commands: '' @ joinWith '', '' SAFE_COMMANDS, st)
               else
                 (let gitDir = path_join rt repoPath SHADOWGIT_DIR
                  in if \<not> existsSync rt (world st) gitDir then
                       (''Error: Not a ShadowGit repository. The .shadowgit.git directory was not found at ''
                          @ gitDir, st)
                     else
                       (let call = gitInvocation rt repoPath as additionalEnv;
                            (res, w') = execFileSync rt (world st) call;
                            st' = \<lparr>world = w', calls = calls st @ [call]\<rparr>
                        in case res of
                             Returns output \<Rightarrow> (if output \<noteq> [] then output else ''(empty output)'', st')
                           | Throws error \<Rightarrow> (classifyError rt error, st')))))"

section \<open>Repository discovery (core/repository-manager.ts)\<close>

record repository =
  name :: string
  path :: string

text \<open>\<open>fileExists\<close> of utils/file-utils.ts: \<open>existsSync\<close> behind a \<open>try\<close>.\<close>

definition fileExists :: "'w runtime \<Rightarrow> 'w \<Rightarrow> string \<Rightarrow> bool" where
  "fileExists rt w filePath = existsSync rt w filePath"

definition findRepository :: "repository list \<Rightarrow> string \<Rightarrow> repository option" where
  "findRepository repositories n = List.find (\<lambda>r. name r = n) repositories"

text \<open>\<open>resolveRepoPath\<close>: \<open>None\<close> is the \<open>null\<close> of the source. \<open>repositories\<close> is the snapshot
  held by the manager, \<open>w\<close> the world the existence checks read.\<close>

definition resolveRepoPath ::
  "'w runtime \<Rightarrow> repository list \<Rightarrow> 'w \<Rightarrow> string \<Rightarrow> string option"
where
  "resolveRepoPath rt repositories w repoNameOrPath =
     (if repoNameOrPath = [] then None
      else
        case findRepository repositories repoNameOrPath of
          Some knownRepo \<Rightarrow>
            (let repoPath =
                   (if prefix ''~'' (path knownRepo) then
                      (if path knownRepo = ''~'' then homedir rt
                       else if prefix ''~/'' (path knownRepo)
                         then path_join rt (homedir rt) (drop 2 (path knownRepo))
                       else path knownRepo)
                    else path knownRepo);
                 shadowgitPath = path_join rt repoPath SHADOWGIT_DIR
             in if fileExists rt w shadowgitPath then Some repoPath else None)
        | None \<Rightarrow>
            (let isPath = (prefix ''/'' repoNameOrPath \<or>
                           prefix ''~'' repoNameOrPath \<or>
                           CHR '':'' \<in> set repoNameOrPath \<or>
                           prefix [BACKSLASH, BACKSLASH] repoNameOrPath)
             in if isPath then
                  (case (if prefix ''~'' repoNameOrPath then
                           (if repoNameOrPath = ''~'' then Some (homedir rt)
                            else if prefix ''~/'' repoNameOrPath
                              then Some (path_join rt (homedir rt) (drop 2 repoNameOrPath))
                            else None)
                         else Some repoNameOrPath) of
                     None \<Rightarrow> None
                   | Some expanded \<Rightarrow>
                       (let resolvedPath = path_normalize rt expanded
                        in if \<not> path_isAbsolute rt resolvedPath then None
                           else if fileExists rt w resolvedPath then
                             (let shadowgitPath = path_join rt resolvedPath SHADOWGIT_DIR
                              in if fileExists rt w shadowgitPath then Some resolvedPath else None)
                           else None))
                else None))"

section \<open>The POSIX functions of the \<open>path\<close> module\<close>

text \<open>
  \<open>path.join\<close>, \<open>path.normalize\<close> and \<open>path.isAbsolute\<close> belong to the platform, not to
  the server, which is why the runtime carries them. Their POSIX versions are written
  out here for the examples: a path is cut at every slash, empty and \<open>.\<close> segments are
  dropped, \<open>..\<close> removes the segment before it (and is kept in front of a relative path
  when there is nothing to remove), and a trailing slash is kept.
\<close>

fun splitOn :: "char \<Rightarrow> string \<Rightarrow> string list" where
  "splitOn sep [] = [[]]"
| "splitOn sep (c # cs) =
     (if c = sep then [] # splitOn sep cs
      else (case splitOn sep cs of [] \<Rightarrow> [[c]] | x # xs \<Rightarrow> (c # x) # xs))"

fun normalizeSegments :: "bool \<Rightarrow> string list \<Rightarrow> string list \<Rightarrow> string list" where
  "normalizeSegments allowAboveRoot [] res = res"
| "normalizeSegments allowAboveRoot (seg # segs) res =
     (if seg = [] \<or> seg = ''.'' then normalizeSegments allowAboveRoot segs res
      else if seg = ''..'' then
        (if res \<noteq> [] \<and> last res \<noteq> ''..'' then normalizeSegments allowAboveRoot segs (butlast res)
         else if allowAboveRoot then normalizeSegments allowAboveRoot segs (res @ [''..''])
         else normalizeSegments allowAboveRoot segs res)
      else normalizeSegments allowAboveRoot segs (res @ [seg]))"

definition posix_isAbsolute :: "string \<Rightarrow> bool" where
  "posix_isAbsolute p = (case p of [] \<Rightarrow> False | c # _ \<Rightarrow> c = CHR ''/'')"

definition posix_normalize :: "string \<Rightarrow> string" where
  "posix_normalize p =
     (if p = [] then ''.''
      else
        (let isAbsolute = posix_isAbsolute p;
             trailingSeparator = (last p = CHR ''/'');
             body = joinWith ''/'' (normalizeSegments (\<not> isAbsolute) (splitOn (CHR ''/'') p) [])
         in if body = [] then (if isAbsolute then ''/'' else if trailingSeparator then ''./'' else ''.'')
            else (if isAbsolute then ''/'' else []) @ body @ (if trailingSeparator then ''/'' else [])))"

definition posix_join :: "string \<Rightarrow> string \<Rightarrow> string" where
  "posix_join a b =
     (if a = [] \<and> b = [] then ''.''
      else if a = [] then posix_normalize b
      else if b = [] then posix_normalize a
      else posix_normalize (a @ ''/'' @ b))"

text \<open>A runtime on a POSIX platform, over a given file system, git binary, process
  environment and home directory.\<close>

definition posix ::
  "('w \<Rightarrow> string \<Rightarrow> bool) \<Rightarrow> ('w \<Rightarrow> invocation \<Rightarrow> exec_result \<times> 'w) \<Rightarrow> (string \<rightharpoonup> string)
     \<Rightarrow> string \<Rightarrow> 'w runtime"
where
  "posix ex git penv home =
     \<lparr>existsSync = ex, execFileSync = git, process_env = penv,
      path_join = posix_join, path_normalize = posix_normalize,
      path_isAbsolute = posix_isAbsolute, homedir = home\<rparr>"

section \<open>The checkpoint handler (handlers/checkpoint-handler.ts)\<close>

text \<open>
  The arguments of the tool as \<open>isValidArgs\<close> sees them: \<open>arg_repo\<close> and \<open>arg_title\<close> are
  \<open>None\<close> when the property is missing or not a string (as for a value that is no object
  at all), so \<open>isValidArgs\<close> holds when both are \<open>Some\<close>; \<open>arg_message\<close> and
  \<open>arg_author\<close> are optional.
\<close>

record checkpoint_args =
  arg_repo :: "string option"
  arg_title :: "string option"
  arg_message :: "string option"
  arg_author :: "string option"

text \<open>
  One constructor for each \<open>return\<close> of \<open>handle\<close>, with the values its text is built
  from; the fixed banners around them are left out. Every response but the last carries
  \<open>success: false\<close>.
\<close>

datatype response =
    MissingParameters
  | TitleTooLong nat
  | MessageTooLong nat
  | NoRepositories
  | RepositoryNotFound string "repository list"
  | NoChanges
  | FailedToStage string
  | FailedToCommit string
  | CheckpointCreated string string "string option"

fun success :: "response \<Rightarrow> bool" where
  "success (CheckpointCreated commitOutput showOutput commitHash) = True"
| "success _ = False"

text \<open>\<open>commitOutput.match(/\[[\w\-]+ ([a-f0-9]+)\]/)\<close>: the first place where a bracket,
  a run of word characters or dashes, one space, a run of lower-case hexadecimal digits
  and a closing bracket follow each other; the value is the run of digits.\<close>

definition isWordOrDash :: "char \<Rightarrow> bool" where
  "isWordOrDash c =
     ((48 \<le> charCode c \<and> charCode c \<le> 57) \<or> (65 \<le> charCode c \<and> charCode c \<le> 90) \<or>
      (97 \<le> charCode c \<and> charCode c \<le> 122) \<or> c = CHR ''_'' \<or> c = CHR ''-'')"

definition isLowerHex :: "char \<Rightarrow> bool" where
  "isLowerHex c = ((48 \<le> charCode c \<and> charCode c \<le> 57) \<or> (97 \<le> charCode c \<and> charCode c \<le> 102))"

definition hashAt :: "string \<Rightarrow> string option" where
  "hashAt s =
     (case s of
        [] \<Rightarrow> None
      | c # r \<Rightarrow>
          if c \<noteq> CHR ''['' \<or> takeWhile isWordOrDash r = [] then None
          else
            (case dropWhile isWordOrDash r of
               [] \<Rightarrow> None
             | d # r' \<Rightarrow>
                 if d \<noteq> CHR '' '' \<or> takeWhile isLowerHex r' = [] then None
                 else
                   (case dropWhile isLowerHex r' of
                      [] \<Rightarrow> None
                    | e # _ \<Rightarrow> if e = CHR '']'' then Some (takeWhile isLowerHex r') else None)))"

fun hashMatch :: "string \<Rightarrow> string option" where
  "hashMatch [] = None"
| "hashMatch (c # cs) = (case hashAt (c # cs) of Some h \<Rightarrow> Some h | None \<Rightarrow> hashMatch cs)"

text \<open>\<open>replace(/\s+/g, '-')\<close>: every run of whitespace becomes one dash.\<close>

function dashes :: "string \<Rightarrow> string" where
  "dashes [] = []"
| "dashes (c # cs) =
     (if isWhitespace c then CHR ''-'' # dashes (dropWhile isWhitespace cs) else c # dashes cs)"
  by pat_completeness auto
termination
  by (relation "measure length") (auto simp: length_dropWhile_le less_Suc_eq_le)

definition commitEnv :: "string \<Rightarrow> (string \<rightharpoonup> string)" where
  "commitEnv author =
     [''GIT_AUTHOR_NAME'' \<mapsto> author,
      ''GIT_AUTHOR_EMAIL'' \<mapsto> dashes (toLowerCase author) @ ''@shadowgit.local'',
      ''GIT_COMMITTER_NAME'' \<mapsto> ''ShadowGit MCP'',
      ''GIT_COMMITTER_EMAIL'' \<mapsto> ''shadowgit-mcp@shadowgit.local'']"

definition fullMessage :: "string \<Rightarrow> string \<Rightarrow> string \<Rightarrow> string" where
  "fullMessage commitTitle commitBody author =
     commitTitle @ (if commitBody \<noteq> [] then [NL, NL] @ commitBody else [])
       @ [NL, NL] @ ''Author: '' @ author @ '' (via ShadowGit MCP)''"

text \<open>The length that \<open>args.message && args.message.length > 1000\<close> compares: a missing
  message (like an empty one) never exceeds the limit.\<close>

definition messageLength :: "checkpoint_args \<Rightarrow> nat" where
  "messageLength a = (case arg_message a of None \<Rightarrow> 0 | Some m \<Rightarrow> length m)"

text \<open>\<open>args.message || ''\<close> and \<open>args.author || 'AI Assistant'\<close>.\<close>

definition commitBodyOf :: "checkpoint_args \<Rightarrow> string" where
  "commitBodyOf a = (case arg_message a of None \<Rightarrow> [] | Some m \<Rightarrow> m)"

definition authorOf :: "checkpoint_args \<Rightarrow> string" where
  "authorOf a =
     (case arg_author a of None \<Rightarrow> ''AI Assistant'' | Some x \<Rightarrow> if x = [] then ''AI Assistant'' else x)"

text \<open>\<open>CheckpointHandler.handle\<close>: the four steps status, add, commit, show, each awaited
  before the next, all of them internal invocations of \<open>execute\<close>.\<close>

definition handle ::
  "'w runtime \<Rightarrow> repository list \<Rightarrow> checkpoint_args \<Rightarrow> 'w state \<Rightarrow> response \<times> 'w state"
where
  "handle rt repositories a st =
     (case (arg_repo a, arg_title a) of
        (Some repo, Some title) \<Rightarrow>
          if length title > 50 then (TitleTooLong (length title), st)
          else if messageLength a > 1000 then (MessageTooLong (messageLength a), st)
          else
            (case resolveRepoPath rt repositories (world st) repo of
               None \<Rightarrow>
                 (if repositories = [] then NoRepositories else RepositoryNotFound repo repositories, st)
             | Some repoPath \<Rightarrow>
                 if repoPath = [] then
                   (if repositories = [] then NoRepositories else RepositoryNotFound repo repositories, st)
                 else
                   (let (statusOutput, st1) =
                          execute rt (Arr [''status'', ''--porcelain'']) repoPath True Map.empty st
                    in if statusOutput = [] \<or> trimIsEmpty statusOutput \<or> statusOutput = ''(empty output)''
                       then (NoChanges, st1)
                       else
                         (let commitTitle = title;
                              commitBody = commitBodyOf a;
                              author = authorOf a;
                              (addOutput, st2) =
                                execute rt (Arr [''add'', ''-A'']) repoPath True Map.empty st1
                          in if prefix ''Error:'' addOutput then (FailedToStage addOutput, st2)
                             else
                               (let (commitOutput, st3) =
                                      execute rt
                                        (Arr [''commit'', ''-m'', fullMessage commitTitle commitBody author])
                                        repoPath True (commitEnv author) st2
                                in if prefix ''Error:'' commitOutput then (FailedToCommit commitOutput, st3)
                                   else
                                     (let commitHash = hashMatch commitOutput;
                                          (showOutput, st4) =
                                            execute rt (Arr [''show'', ''--stat'', ''--format=short'', ''HEAD''])
                                              repoPath True Map.empty st3
                                      in (CheckpointCreated commitOutput showOutput commitHash, st4))))))
      | _ \<Rightarrow> (MissingParameters, st))"

section \<open>A concrete runtime for the examples\<close>

text \<open>
  A POSIX machine whose home directory is \<open>/home/u\<close>, whose only shadow store is the one of
  \<open>/home/u/proj\<close>, with an empty process environment and a given git binary. Its world
  never changes, so it is the unit value.
\<close>

definition demo :: "(invocation \<Rightarrow> exec_result) \<Rightarrow> unit runtime" where
  "demo git =
     posix (\<lambda>w p. p = ''/home/u/proj'' \<or> p = ''/home/u/proj/.shadowgit.git'')
       (\<lambda>w inv. (git inv, w)) Map.empty ''/home/u''"

text \<open>A timed-out invocation that also carries diagnostic output and a status, a failed
  \<open>git add\<close> with the shape \<open>execFileSync\<close> gives a non-zero exit, and a git binary
  on which only \<open>add\<close> fails.\<close>

definition timedOut :: exec_error where
  "timedOut =
     \<lparr>code = Some ''ETIMEDOUT'', signal = None, stderr = Text ''partial'', stdout = Absent,
      hasStatus = True, message = Some ''spawnSync git ETIMEDOUT'',
      rendered = ''Error: spawnSync git ETIMEDOUT''\<rparr>"

definition addFailure :: exec_error where
  "addFailure =
     \<lparr>code = None, signal = None, stderr = Text ''fatal: Unable to create index.lock'',
      stdout = Text [], hasStatus = True, message = Some ''Command failed: git add -A'',
      rendered = ''Error: Command failed: git add -A''\<rparr>"

definition flakyGit :: "invocation \<Rightarrow> exec_result" where
  "flakyGit i =
     (if ''status'' \<in> set (argv i) then Returns '' M a.txt''
      else if ''add'' \<in> set (argv i) then Throws (Object addFailure)
      else Returns ''[main abc1234] Fix'')"

text \<open>The same machine with \<open>SHADOWGIT_TIMEOUT\<close> set to \<open>v\<close>.\<close>

definition demoTimeout :: "string \<Rightarrow> (invocation \<Rightarrow> exec_result) \<Rightarrow> unit runtime" where
  "demoTimeout v git =
     posix (\<lambda>w p. p = ''/home/u/proj'' \<or> p = ''/home/u/proj/.shadowgit.git'')
       (\<lambda>w i. (git i, w)) [''SHADOWGIT_TIMEOUT'' \<mapsto> v] ''/home/u''"

definition st0 :: "unit state" where
  "st0 = \<lparr>world = (), calls = []\<rparr>"

section \<open>Evaluation and helper lemmas\<close>

lemmas char_defs = charCode_def DQUOTE_def SQUOTE_def BACKSLASH_def NL_def isWhitespace_def
  isControlChar_def isDigit_def

lemmas tokenize_defs = tokenize_def sanitize_def parser0_def nextIs_def

lemma lower_patterns:
  "map toLowerCase DANGEROUS_PATTERNS =
     [''--upload-pack'', ''--receive-pack'', ''--exec'', ''-c'', ''--config'', ''-e'',
      ''--git-dir'', ''--work-tree'', ''-c'']"
  by code_simp

text \<open>Lower-casing never produces a capital C, so the last pattern of the list can only be
  met through its lower-case twin \<open>-c\<close>.\<close>

lemma lowerChar_not_C: "lowerChar c \<noteq> CHR ''C''"
proof
  assume a: "lowerChar c = CHR ''C''"
  show False
  proof (cases "(65 \<le> charCode c \<and> charCode c \<le> 90) \<or>
         (192 \<le> charCode c \<and> charCode c \<le> 222 \<and> charCode c \<noteq> 215)")
    case True
    then have "char_of (charCode c + 32) = CHR ''C''"
      using a by (simp add: lowerChar_def)
    then have "of_char (char_of (charCode c + 32) :: char) = (of_char (CHR ''C'') :: nat)"
      by simp
    then have "(charCode c + 32) mod 256 = 67"
      by simp
    with True show False by auto
  next
    case False
    then have "lowerChar c = c"
      unfolding lowerChar_def by (rule if_not_P)
    with a have "c = CHR ''C''" by simp
    with False show False by (simp add: charCode_def)
  qed
qed

lemma toLowerCase_no_C: "CHR ''C'' \<notin> set (toLowerCase t)"
  using lowerChar_not_C by (fastforce simp: toLowerCase_def)

lemma toLowerCase_upper_C:
  "toLowerCase t \<noteq> ''-C''" "\<not> prefix ''-C='' (toLowerCase t)"
proof -
  show "toLowerCase t \<noteq> ''-C''"
    using toLowerCase_no_C [of t] by auto
  show "\<not> prefix ''-C='' (toLowerCase t)"
    using toLowerCase_no_C [of t] by (auto simp: prefix_def)
qed

text \<open>The test of the source, which lower-cases the argument only, is the comparison
  that ignores case on both sides.\<close>

lemma isDangerousArg_iff:
  "isDangerousArg t \<longleftrightarrow>
     (\<exists>pattern\<in>set DANGEROUS_PATTERNS.
        toLowerCase t = toLowerCase pattern \<or>
        prefix (toLowerCase pattern @ ''='') (toLowerCase t))"
proof -
  have "(\<exists>pattern\<in>set DANGEROUS_PATTERNS.
          toLowerCase t = toLowerCase pattern \<or>
          prefix (toLowerCase pattern @ ''='') (toLowerCase t))
     \<longleftrightarrow> (\<exists>q\<in>set (map toLowerCase DANGEROUS_PATTERNS).
            toLowerCase t = q \<or> prefix (q @ ''='') (toLowerCase t))"
    by simp
  also have "\<dots> \<longleftrightarrow> isDangerousArg t"
    unfolding lower_patterns
    by (auto simp: isDangerousArg_def DANGEROUS_PATTERNS_def Let_def toLowerCase_upper_C)
  finally show ?thesis by simp
qed

lemma isControlChar_iff:
  "isControlChar c \<longleftrightarrow> (charCode c < 32 \<and> charCode c \<notin> {9, 10, 13}) \<or> charCode c = 127"
  unfolding isControlChar_def by auto

lemma execute_dangerous:
  assumes "parseCommand cmd isInternal = Inr as" and "list_ex isDangerousArg as"
  shows "execute rt cmd repoPath isInternal additionalEnv st =
           (''Error: Command contains potentially dangerous arguments.'', st)"
  using assms by (cases as) (simp_all add: execute_def)

lemma execute_not_allowed:
  assumes "parseCommand cmd False = Inr (gitCommand # rest)"
    and "\<not> list_ex isDangerousArg (gitCommand # rest)"
    and "gitCommand \<notin> set SAFE_COMMANDS"
  shows "execute rt cmd repoPath False additionalEnv st =
           (''Error: Command '' @ [SQUOTE] @ gitCommand @ [SQUOTE]
              @ '' is not allowed. Only read-only commands are permitted.''
              @ [NL, NL] @ ''Allowed commands: '' @ joinWith '', '' SAFE_COMMANDS, st)"
  using assms by (simp add: execute_def)

text \<open>What \<open>execute\<close> does once the three safety checks have passed.\<close>

lemma execute_accepted:
  assumes "parseCommand cmd isInternal = Inr (gitCommand # rest)"
    and "\<not> list_ex isDangerousArg (gitCommand # rest)"
    and "isInternal \<or> gitCommand \<in> set SAFE_COMMANDS"
    and "existsSync rt (world st) (path_join rt repoPath SHADOWGIT_DIR)"
  shows "execute rt cmd repoPath isInternal additionalEnv st =
           (let call = gitInvocation rt repoPath (gitCommand # rest) additionalEnv;
                st' = \<lparr>world = snd (execFileSync rt (world st) call), calls = calls st @ [call]\<rparr>
            in case fst (execFileSync rt (world st) call) of
                 Returns output \<Rightarrow> (if output \<noteq> [] then output else ''(empty output)'', st')
               | Throws error \<Rightarrow> (classifyError rt error, st'))"
  using assms by (auto simp: execute_def Let_def split: prod.splits exec_result.splits)

lemma execute_calls_extend:
  "\<exists>extra. calls (snd (execute rt cmd repoPath isInternal additionalEnv st)) = calls st @ extra"
  by (auto simp: execute_def Let_def split: sum.splits list.splits prod.splits exec_result.splits)

lemma structured_text:
  assumes "code e \<noteq> Some ''ETIMEDOUT''" and "signal e \<noteq> Some ''SIGTERM''"
    and "stderr e \<noteq> Absent \<or> stdout e \<noteq> Absent \<or> hasStatus e"
  shows "prefix ''Error executing git command:'' (classifyError rt (Object e))"
    and "\<not> prefix ''Error:'' (classifyError rt (Object e))"
  using assms by (auto simp: classifyError_def Let_def)

lemma findRepository_None_iff:
  "findRepository repositories s = None \<longleftrightarrow> s \<notin> name ` set repositories"
  by (auto simp: findRepository_def find_None_iff)

lemmas posix_defs = posix_join_def posix_normalize_def posix_isAbsolute_def SHADOWGIT_DIR_def

lemma demo_simps:
  "existsSync (demo git) w p = (p = ''/home/u/proj'' \<or> p = ''/home/u/proj/.shadowgit.git'')"
  "execFileSync (demo git) w i = (git i, w)"
  "process_env (demo git) = Map.empty"
  "path_join (demo git) = posix_join"
  "path_normalize (demo git) = posix_normalize"
  "path_isAbsolute (demo git) = posix_isAbsolute"
  "homedir (demo git) = ''/home/u''"
  by (simp_all add: demo_def posix_def)

lemma demo_marker: "posix_join ''/home/u/proj'' SHADOWGIT_DIR = ''/home/u/proj/.shadowgit.git''"
  by (simp add: posix_defs)

lemma demo_home: "posix_join ''/home/u'' ''proj'' = ''/home/u/proj''"
  by (simp add: posix_defs)

text \<open>Reading a decimal numeral and printing its value gives the numeral back.\<close>

lemma digitsValue_snoc:
  "digitsValue (xs @ [c]) acc = digitsValue xs acc * 10 + (int (charCode c) - 48)"
  by (induction xs arbitrary: acc) simp_all

lemma digit_char:
  assumes "isDigit c"
  shows "char_of (48 + nat (int (charCode c) - 48)) = c"
proof -
  from assms have "48 + nat (int (charCode c) - 48) = charCode c"
    by (auto simp: isDigit_def)
  then show ?thesis by (simp add: charCode_def)
qed

lemma charCode_zero:
  assumes "charCode c = 48"
  shows "c = CHR ''0''"
proof -
  from assms have "of_char c = (of_char (CHR ''0'') :: nat)"
    by (simp add: charCode_def)
  then show ?thesis by (simp only: of_char_eq_iff)
qed

lemma showNat_step:
  "0 < n \<Longrightarrow> d < 10 \<Longrightarrow> showNat (10 * n + d) = showNat n @ [char_of (48 + d)]"
  by (subst showNat.simps) simp

lemma digitsValue_nonneg: "list_all isDigit v \<Longrightarrow> 0 \<le> acc \<Longrightarrow> 0 \<le> digitsValue v acc"
  by (induction v arbitrary: acc) (auto simp: isDigit_def)

lemma showNat_digits:
  "v \<noteq> [] \<Longrightarrow> list_all isDigit v \<Longrightarrow> \<not> prefix ''0'' v \<Longrightarrow>
     0 < digitsValue v 0 \<and> showNat (nat (digitsValue v 0)) = v"
proof (induction v rule: rev_induct)
  case Nil
  then show ?case by simp
next
  case (snoc c xs)
  from snoc.prems have dc: "isDigit c" and dx: "list_all isDigit xs" by simp_all
  let ?d = "nat (int (charCode c) - 48)"
  from dc have d10: "?d < 10" and dint: "int ?d = int (charCode c) - 48"
    by (auto simp: isDigit_def)
  show ?case
  proof (cases "xs = []")
    case True
    with snoc.prems have "c \<noteq> CHR ''0''" by auto
    then have "charCode c \<noteq> 48"
      using charCode_zero by blast
    with dc have pos: "0 < ?d" by (auto simp: isDigit_def)
    have "digitsValue [c] 0 = int ?d" using dint by simp
    moreover have "showNat ?d = [c]"
      using d10 digit_char [OF dc] by (subst showNat.simps) simp
    ultimately show ?thesis using True pos by simp
  next
    case False
    with snoc.prems have "\<not> prefix ''0'' xs" by (cases xs) auto
    with snoc.IH False dx have ih: "0 < digitsValue xs 0" "showNat (nat (digitsValue xs 0)) = xs"
      by simp_all
    let ?n = "nat (digitsValue xs 0)"
    have val: "digitsValue (xs @ [c]) 0 = int (10 * ?n + ?d)"
      using ih(1) dint by (simp add: digitsValue_snoc)
    have sh: "showNat (10 * ?n + ?d) = xs @ [c]"
      using showNat_step [of ?n ?d] ih d10 digit_char [OF dc] by simp
    have nv: "nat (digitsValue (xs @ [c]) 0) = 10 * ?n + ?d"
      by (simp only: val nat_int)
    from ih(1) have "0 < int (10 * ?n + ?d)" by simp
    then have pos: "0 < digitsValue (xs @ [c]) 0" by (simp only: val)
    show ?thesis
    proof (intro conjI)
      show "0 < digitsValue (xs @ [c]) 0" by (rule pos)
      show "showNat (nat (digitsValue (xs @ [c]) 0)) = xs @ [c]" by (simp only: nv sh)
    qed
  qed
qed

lemma showNat_decimal:
  assumes "list_all isDigit v" and "v = ''0'' \<or> (v \<noteq> [] \<and> \<not> prefix ''0'' v)"
  shows "showNat (nat (digitsValue v 0)) = v"
proof (cases "v = ''0''")
  case True
  then show ?thesis by (simp add: charCode_def showNat.simps char_of_def bit_Suc_0_iff)
next
  case False
  with assms show ?thesis using showNat_digits [of v] by simp
qed

lemma parseInt_digits:
  assumes "v \<noteq> []" and "list_all isDigit v"
  shows "parseInt v = Num (digitsValue v 0)"
proof -
  from assms obtain c cs where v: "v = c # cs" and dc: "isDigit c" by (cases v) auto
  from dc have nw: "\<not> isWhitespace c" and ns: "c \<noteq> CHR ''-''" "c \<noteq> CHR ''+''"
    by (auto simp: isDigit_def isWhitespace_def charCode_def)
  have tw: "takeWhile isDigit v = v" using assms(2) by (simp add: list_all_iff)
  show ?thesis using v nw ns tw assms(1) by (simp add: parseInt_def Let_def)
qed

lemma demoTimeout_simps:
  "existsSync (demoTimeout v git) w p = (p = ''/home/u/proj'' \<or> p = ''/home/u/proj/.shadowgit.git'')"
  "execFileSync (demoTimeout v git) w i = (git i, w)"
  "process_env (demoTimeout v git) = [''SHADOWGIT_TIMEOUT'' \<mapsto> v]"
  "path_join (demoTimeout v git) = posix_join"
  by (simp_all add: demoTimeout_def posix_def)

lemma st0_simps: "world st0 = ()" "calls st0 = []"
  by (simp_all add: st0_def)

section \<open>The claims\<close>

subsection \<open>C1: the blacklist holds at every trust level\<close>

text \<open>
  C1. Whatever the trust level, when a token of the argument vector matches a pattern of
  the blacklist (ignoring case, the token is the pattern or starts with the pattern followed
  by \<open>=\<close>), \<open>execute\<close> returns the rejection text and leaves the state as it was: no
  invocation of the git binary is added to the log.
\<close>

theorem C1_dangerous_token_rejected:
  assumes "parseCommand cmd isInternal = Inr as"
    and "\<exists>t\<in>set as. \<exists>pattern\<in>set DANGEROUS_PATTERNS.
           toLowerCase t = toLowerCase pattern \<or>
           prefix (toLowerCase pattern @ ''='') (toLowerCase t)"
  shows "execute rt cmd repoPath isInternal additionalEnv st =
           (''Error: Command contains potentially dangerous arguments.'', st)"
proof -
  from assms(2) have "list_ex isDangerousArg as"
    by (simp add: list_ex_iff isDangerousArg_iff)
  with assms(1) show ?thesis by (rule execute_dangerous)
qed

text \<open>An internal call with an upper-case \<open>--EXEC=rm\<close> is rejected without touching git.\<close>

theorem C1_dangerous_token_rejected_witness:
  "parseCommand (Str ''log --EXEC=rm'') True = Inr [''log'', ''--EXEC=rm''] \<and>
   (\<exists>t\<in>set [''log'', ''--EXEC=rm'']. \<exists>pattern\<in>set DANGEROUS_PATTERNS.
      toLowerCase t = toLowerCase pattern \<or>
      prefix (toLowerCase pattern @ ''='') (toLowerCase t)) \<and>
   execute (demo (\<lambda>i. Returns ''ok'')) (Str ''log --EXEC=rm'') ''/home/u/proj'' True Map.empty st0 =
     (''Error: Command contains potentially dangerous arguments.'', st0)"
proof -
  have h1: "parseCommand (Str ''log --EXEC=rm'') True = Inr [''log'', ''--EXEC=rm'']"
    by (simp add: parseCommand_def tokenize_defs char_defs)
  have h2: "\<exists>t\<in>set [''log'', ''--EXEC=rm'']. \<exists>pattern\<in>set DANGEROUS_PATTERNS.
      toLowerCase t = toLowerCase pattern \<or>
      prefix (toLowerCase pattern @ ''='') (toLowerCase t)"
    by code_simp
  show ?thesis
    using h1 h2 C1_dangerous_token_rejected [OF h1 h2] by blast
qed

subsection \<open>C2: the whitelist binds external calls only\<close>

text \<open>
  C2, as stated, fails: the blacklist is checked before the whitelist, so an external
  \<open>push --exec\<close> is answered with the text about dangerous arguments, which does not name
  \<open>push\<close>.
\<close>

theorem C2_rejection_not_naming_subcommand:
  "parseCommand (Str ''push --exec'') False = Inr [''push'', ''--exec''] \<and>
   ''push'' \<notin> set SAFE_COMMANDS \<and>
   execute (demo (\<lambda>i. Returns ''ok'')) (Str ''push --exec'') ''/home/u/proj'' False Map.empty st0 =
     (''Error: Command contains potentially dangerous arguments.'', st0) \<and>
   \<not> sublist ''push'' ''Error: Command contains potentially dangerous arguments.''"
proof -
  have d: "list_ex isDangerousArg [''push'', ''--exec'']" by code_simp
  have p: "parseCommand (Str ''push --exec'') False = Inr [''push'', ''--exec'']"
    by (simp add: parseCommand_def MAX_COMMAND_LENGTH_def tokenize_defs char_defs)
  have "''push'' \<notin> set SAFE_COMMANDS" by (simp add: SAFE_COMMANDS_def)
  moreover have "\<not> sublist ''push'' ''Error: Command contains potentially dangerous arguments.''"
    by (simp add: sublist_Cons_right)
  ultimately show ?thesis using p execute_dangerous [OF p d] by simp
qed

text \<open>
  C2, amended. An external invocation whose first token is not in \<open>SAFE_COMMANDS\<close> is
  rejected with the state unchanged (git is not invoked); the text names the subcommand
  when no token matches the blacklist, and is the text about dangerous arguments
  otherwise. An internal invocation skips the whitelist: \<open>['commit', '-m', 'fix']\<close>,
  against a repository whose shadow store exists, is handed to the git binary.
\<close>

theorem C2_whitelist_external_only:
  "(parseCommand cmd False = Inr (gitCommand # rest) \<and> gitCommand \<notin> set SAFE_COMMANDS \<longrightarrow>
      execute rt cmd repoPath False additionalEnv st =
        (if list_ex isDangerousArg (gitCommand # rest)
         then ''Error: Command contains potentially dangerous arguments.''
         else ''Error: Command '' @ [SQUOTE] @ gitCommand @ [SQUOTE]
                @ '' is not allowed. Only read-only commands are permitted.''
                @ [NL, NL] @ ''Allowed commands: '' @ joinWith '', '' SAFE_COMMANDS, st))
   \<and> (existsSync rt (world st) (path_join rt repoPath SHADOWGIT_DIR) \<longrightarrow>
        calls (snd (execute rt (Arr [''commit'', ''-m'', ''fix'']) repoPath True additionalEnv st)) =
          calls st @ [gitInvocation rt repoPath [''commit'', ''-m'', ''fix''] additionalEnv])"
proof (intro conjI impI)
  assume a: "parseCommand cmd False = Inr (gitCommand # rest) \<and> gitCommand \<notin> set SAFE_COMMANDS"
  show "execute rt cmd repoPath False additionalEnv st =
        (if list_ex isDangerousArg (gitCommand # rest)
         then ''Error: Command contains potentially dangerous arguments.''
         else ''Error: Command '' @ [SQUOTE] @ gitCommand @ [SQUOTE]
                @ '' is not allowed. Only read-only commands are permitted.''
                @ [NL, NL] @ ''Allowed commands: '' @ joinWith '', '' SAFE_COMMANDS, st)"
  proof (cases "list_ex isDangerousArg (gitCommand # rest)")
    case True
    with a show ?thesis
      using execute_dangerous [of cmd False "gitCommand # rest"] by simp
  next
    case False
    with a show ?thesis
      using execute_not_allowed [of cmd gitCommand rest] by simp
  qed
next
  assume m: "existsSync rt (world st) (path_join rt repoPath SHADOWGIT_DIR)"
  have p: "parseCommand (Arr [''commit'', ''-m'', ''fix'']) True = Inr [''commit'', ''-m'', ''fix'']"
    by (simp add: parseCommand_def)
  have d: "\<not> list_ex isDangerousArg [''commit'', ''-m'', ''fix'']"
    by code_simp
  show "calls (snd (execute rt (Arr [''commit'', ''-m'', ''fix'']) repoPath True additionalEnv st)) =
          calls st @ [gitInvocation rt repoPath [''commit'', ''-m'', ''fix''] additionalEnv]"
    using execute_accepted [OF p d _ m, of additionalEnv]
    by (simp add: Let_def split: exec_result.splits)
qed

text \<open>The external \<open>commit -m "x"\<close> is refused by name; the internal commit reaches git.\<close>

theorem C2_whitelist_external_only_witness:
  "parseCommand (Str (''commit -m '' @ [DQUOTE] @ ''x'' @ [DQUOTE])) False = Inr [''commit'', ''-m'', ''x''] \<and>
   ''commit'' \<notin> set SAFE_COMMANDS \<and>
   execute (demo (\<lambda>i. Returns ''ok'')) (Str (''commit -m '' @ [DQUOTE] @ ''x'' @ [DQUOTE]))
       ''/home/u/proj'' False Map.empty st0 =
     (''Error: Command '' @ [SQUOTE] @ ''commit'' @ [SQUOTE]
        @ '' is not allowed. Only read-only commands are permitted.''
        @ [NL, NL] @ ''Allowed commands: '' @ joinWith '', '' SAFE_COMMANDS, st0) \<and>
   existsSync (demo (\<lambda>i. Returns ''ok'')) (world st0)
     (path_join (demo (\<lambda>i. Returns ''ok'')) ''/home/u/proj'' SHADOWGIT_DIR) \<and>
   map argv (calls (snd (execute (demo (\<lambda>i. Returns ''ok'')) (Arr [''commit'', ''-m'', ''fix''])
       ''/home/u/proj'' True Map.empty st0))) =
     [[''--git-dir=/home/u/proj/.shadowgit.git'', ''--work-tree=/home/u/proj'',
       ''commit'', ''-m'', ''fix'']]"
proof -
  let ?rt = "demo (\<lambda>i. Returns ''ok'')"
  let ?cmd = "Str (''commit -m '' @ [DQUOTE] @ ''x'' @ [DQUOTE])"
  have p: "parseCommand ?cmd False = Inr [''commit'', ''-m'', ''x'']"
    by (simp add: parseCommand_def MAX_COMMAND_LENGTH_def tokenize_defs char_defs)
  have w: "''commit'' \<notin> set SAFE_COMMANDS" by (simp add: SAFE_COMMANDS_def)
  have d: "\<not> list_ex isDangerousArg [''commit'', ''-m'', ''x'']" by code_simp
  have m: "existsSync ?rt (world st0) (path_join ?rt ''/home/u/proj'' SHADOWGIT_DIR)"
    by (simp add: demo_simps demo_marker)
  note t = C2_whitelist_external_only
    [of ?cmd "''commit''" "[''-m'', ''x'']" ?rt "''/home/u/proj''" Map.empty st0]
  from t p w d have e1: "execute ?rt ?cmd ''/home/u/proj'' False Map.empty st0 =
     (''Error: Command '' @ [SQUOTE] @ ''commit'' @ [SQUOTE]
        @ '' is not allowed. Only read-only commands are permitted.''
        @ [NL, NL] @ ''Allowed commands: '' @ joinWith '', '' SAFE_COMMANDS, st0)"
    by simp
  from t m have "calls (snd (execute ?rt (Arr [''commit'', ''-m'', ''fix'']) ''/home/u/proj''
                   True Map.empty st0)) =
          calls st0 @ [gitInvocation ?rt ''/home/u/proj'' [''commit'', ''-m'', ''fix''] Map.empty]"
    by blast
  then have e2: "map argv (calls (snd (execute ?rt (Arr [''commit'', ''-m'', ''fix''])
       ''/home/u/proj'' True Map.empty st0))) =
     [[''--git-dir=/home/u/proj/.shadowgit.git'', ''--work-tree=/home/u/proj'',
       ''commit'', ''-m'', ''fix'']]"
    by (simp add: st0_simps gitInvocation_def demo_simps demo_marker)
  from p w e1 m e2 show ?thesis by blast
qed

subsection \<open>C3: the locations given to git come from the resolved path\<close>

text \<open>
  C3. When an invocation passes every check, exactly one call of the git binary is made,
  and its argument vector is \<open>--git-dir=\<close> with the shadow store inside the resolved path
  (\<open>path.join(repoPath, '.shadowgit.git')\<close>), \<open>--work-tree=\<close> with the resolved path,
  then the caller's tokens as they are. The first two entries are built from \<open>repoPath\<close>
  alone.
\<close>

theorem C3_locations_from_resolved_path:
  assumes "parseCommand cmd isInternal = Inr (gitCommand # rest)"
    and "\<not> list_ex isDangerousArg (gitCommand # rest)"
    and "isInternal \<or> gitCommand \<in> set SAFE_COMMANDS"
    and "existsSync rt (world st) (path_join rt repoPath SHADOWGIT_DIR)"
  shows "calls (snd (execute rt cmd repoPath isInternal additionalEnv st)) =
           calls st @ [gitInvocation rt repoPath (gitCommand # rest) additionalEnv] \<and>
         argv (gitInvocation rt repoPath (gitCommand # rest) additionalEnv) =
           (''--git-dir='' @ path_join rt repoPath SHADOWGIT_DIR) # (''--work-tree='' @ repoPath)
             # gitCommand # rest"
  using execute_accepted [OF assms, of additionalEnv]
  by (simp add: Let_def gitInvocation_def split: exec_result.splits)

theorem C3_locations_from_resolved_path_witness:
  "parseCommand (Str ''log --oneline -5'') False = Inr [''log'', ''--oneline'', ''-5''] \<and>
   \<not> list_ex isDangerousArg [''log'', ''--oneline'', ''-5''] \<and>
   ''log'' \<in> set SAFE_COMMANDS \<and>
   map argv (calls (snd (execute (demo (\<lambda>i. Returns ''ok'')) (Str ''log --oneline -5'')
       ''/home/u/proj'' False Map.empty st0))) =
     [[''--git-dir=/home/u/proj/.shadowgit.git'', ''--work-tree=/home/u/proj'',
       ''log'', ''--oneline'', ''-5'']]"
proof -
  let ?rt = "demo (\<lambda>i. Returns ''ok'')"
  have p: "parseCommand (Str ''log --oneline -5'') False = Inr [''log'', ''--oneline'', ''-5'']"
    by (simp add: parseCommand_def MAX_COMMAND_LENGTH_def tokenize_defs char_defs)
  have d: "\<not> list_ex isDangerousArg [''log'', ''--oneline'', ''-5'']" by code_simp
  have w: "''log'' \<in> set SAFE_COMMANDS" by (simp add: SAFE_COMMANDS_def)
  have m: "existsSync ?rt (world st0) (path_join ?rt ''/home/u/proj'' SHADOWGIT_DIR)"
    by (simp add: demo_simps demo_marker)
  from C3_locations_from_resolved_path [OF p d disjI2 [OF w] m, of Map.empty]
  have "map argv (calls (snd (execute ?rt (Str ''log --oneline -5'')
       ''/home/u/proj'' False Map.empty st0))) =
     [[''--git-dir=/home/u/proj/.shadowgit.git'', ''--work-tree=/home/u/proj'',
       ''log'', ''--oneline'', ''-5'']]"
    by (simp add: st0_simps demo_simps demo_marker)
  with p d w show ?thesis by blast
qed

subsection \<open>C4: control characters are removed before splitting\<close>

text \<open>
  C4, as stated, fails: the tab (code 0x09, below 0x20) is not removed. It stays in the
  string and separates tokens, so \<open>log<TAB>--oneline\<close> gives two tokens where the string
  without the tab gives one.
\<close>

theorem C4_tab_is_kept:
  "charCode (CHR 0x09) < 0x20 \<and>
   tokenize (''log'' @ [CHR 0x09] @ ''--oneline'') = [''log'', ''--oneline''] \<and>
   tokenize (''log'' @ ''--oneline'') = [''log--oneline'']"
  by (simp add: tokenize_defs char_defs)

text \<open>
  C4, amended. The tokenizer removes the characters with a code below 0x20 other than tab
  (0x09), line feed (0x0A) and carriage return (0x0D), and the character 0x7F, before it
  splits: a string is tokenized exactly as the string without those characters is, outside
  and inside quotes.
\<close>

theorem C4_control_characters_removed:
  "tokenize s =
     tokenize (filter (\<lambda>c. \<not> ((charCode c < 32 \<and> charCode c \<notin> {9, 10, 13}) \<or> charCode c = 127)) s)"
proof -
  have "(\<lambda>c. \<not> ((charCode c < 32 \<and> charCode c \<notin> {9, 10, 13}) \<or> charCode c = 127)) =
        (\<lambda>c. \<not> isControlChar c)"
    by (simp add: isControlChar_iff)
  then show ?thesis by (simp add: tokenize_def sanitize_def)
qed

text \<open>NUL and other low bytes next to \<open>--oneline\<close>, and NUL and DEL inside a quoted span.\<close>

theorem C4_control_characters_removed_witness:
  "tokenize (''log'' @ [CHR 0x00, CHR 0x01, CHR 0x02, CHR 0x1F] @ '' --oneline'') =
     [''log'', ''--oneline''] \<and>
   tokenize (''log '' @ [DQUOTE] @ ''a'' @ [CHR 0x00, CHR 0x7F] @ '' b'' @ [DQUOTE]) = [''log'', ''a b'']"
proof -
  have a: "tokenize (''log'' @ [CHR 0x00, CHR 0x01, CHR 0x02, CHR 0x1F] @ '' --oneline'') =
           tokenize ''log --oneline''"
    using C4_control_characters_removed
      [of "''log'' @ [CHR 0x00, CHR 0x01, CHR 0x02, CHR 0x1F] @ '' --oneline''"]
    by (simp add: char_defs)
  have b: "tokenize (''log '' @ [DQUOTE] @ ''a'' @ [CHR 0x00, CHR 0x7F] @ '' b'' @ [DQUOTE]) =
           tokenize (''log '' @ [DQUOTE] @ ''a b'' @ [DQUOTE])"
    using C4_control_characters_removed
      [of "''log '' @ [DQUOTE] @ ''a'' @ [CHR 0x00, CHR 0x7F] @ '' b'' @ [DQUOTE]"]
    by (simp add: char_defs)
  have c: "tokenize ''log --oneline'' = [''log'', ''--oneline'']"
    by (simp add: tokenize_defs char_defs)
  have d: "tokenize (''log '' @ [DQUOTE] @ ''a b'' @ [DQUOTE]) = [''log'', ''a b'']"
    by (simp add: tokenize_defs char_defs)
  from a b c d show ?thesis by simp
qed

subsection \<open>C5: resolving a known repository name\<close>

text \<open>
  C5, as stated, fails for the empty string: the guard for a missing input comes first, so
  a repository whose name is empty is never resolved, although the name matches and its
  shadow store exists.
\<close>

theorem C5_empty_name_not_resolved:
  "findRepository [\<lparr>name = [], path = ''/p''\<rparr>] [] = Some \<lparr>name = [], path = ''/p''\<rparr> \<and>
   fileExists (posix (\<lambda>w p. True) (\<lambda>w i. (Returns [], w)) Map.empty ''/home/u'') ()
     (path_join (posix (\<lambda>w p. True) (\<lambda>w i. (Returns [], w)) Map.empty ''/home/u'')
        ''/p'' SHADOWGIT_DIR) \<and>
   resolveRepoPath (posix (\<lambda>w p. True) (\<lambda>w i. (Returns [], w)) Map.empty ''/home/u'')
     [\<lparr>name = [], path = ''/p''\<rparr>] () [] = None"
  by (simp add: findRepository_def fileExists_def posix_def resolveRepoPath_def)

text \<open>
  C5, amended. When the string is not empty and is the name of a known repository (the
  first with that name), its configured path is expanded only when it is \<open>~\<close> or starts
  with \<open>~/\<close>, and \<open>resolveRepoPath\<close> returns the expanded path when the shadow store
  \<open>.shadowgit.git\<close> exists inside it, and \<open>null\<close> when it does not.
\<close>

theorem C5_known_name_resolution:
  assumes "repoNameOrPath \<noteq> []"
    and "findRepository repositories repoNameOrPath = Some knownRepo"
  shows "resolveRepoPath rt repositories w repoNameOrPath =
           (let expanded =
                  (if path knownRepo = ''~'' then homedir rt
                   else if prefix ''~/'' (path knownRepo)
                     then path_join rt (homedir rt) (drop 2 (path knownRepo))
                   else path knownRepo)
            in if fileExists rt w (path_join rt expanded SHADOWGIT_DIR) then Some expanded else None)"
proof -
  have t: "prefix ''~/'' (path knownRepo) \<Longrightarrow> prefix ''~'' (path knownRepo)"
    by (auto simp: prefix_def)
  show ?thesis
  proof (cases "prefix ''~'' (path knownRepo)")
    case True
    with assms show ?thesis by (simp add: resolveRepoPath_def Let_def)
  next
    case False
    with t have "\<not> prefix ''~/'' (path knownRepo)" and "path knownRepo \<noteq> ''~''"
      by auto
    with False assms show ?thesis by (simp add: resolveRepoPath_def Let_def)
  qed
qed

text \<open>The example of the specification: \<open>app\<close> configured as \<open>~/proj\<close>, home \<open>/home/u\<close>;
  with the shadow store present the result is \<open>/home/u/proj\<close>, without it the result is
  \<open>null\<close>.\<close>

theorem C5_known_name_resolution_witness:
  "''app'' \<noteq> [] \<and>
   findRepository [\<lparr>name = ''app'', path = ''~/proj''\<rparr>] ''app'' =
     Some \<lparr>name = ''app'', path = ''~/proj''\<rparr> \<and>
   resolveRepoPath (demo (\<lambda>i. Returns [])) [\<lparr>name = ''app'', path = ''~/proj''\<rparr>] () ''app'' =
     Some ''/home/u/proj'' \<and>
   resolveRepoPath (posix (\<lambda>w p. False) (\<lambda>w i. (Returns [], w)) Map.empty ''/home/u'')
     [\<lparr>name = ''app'', path = ''~/proj''\<rparr>] () ''app'' = None"
proof -
  let ?repos = "[\<lparr>name = ''app'', path = ''~/proj''\<rparr>]"
  have n: "''app'' \<noteq> []" by simp
  have f: "findRepository ?repos ''app'' = Some \<lparr>name = ''app'', path = ''~/proj''\<rparr>"
    by (simp add: findRepository_def)
  have a: "resolveRepoPath (demo (\<lambda>i. Returns [])) ?repos () ''app'' = Some ''/home/u/proj''"
    using C5_known_name_resolution [OF n f, of "demo (\<lambda>i. Returns [])" "()"]
    by (simp add: demo_simps fileExists_def demo_home demo_marker)
  have b: "resolveRepoPath (posix (\<lambda>w p. False) (\<lambda>w i. (Returns [], w)) Map.empty ''/home/u'')
             ?repos () ''app'' = None"
    using C5_known_name_resolution
      [OF n f, of "posix (\<lambda>w p. False) (\<lambda>w i. (Returns [], w)) Map.empty ''/home/u''" "()"]
    by (simp add: posix_def fileExists_def)
  from n f a b show ?thesis by blast
qed

subsection \<open>C6: a bare token is never read as a path\<close>

text \<open>
  C6. An input that is no known repository name and is not path-like (it does not start
  with \<open>/\<close>, does not start with \<open>~\<close>, has no \<open>:\<close> and does not start with two backslashes)
  resolves to \<open>null\<close>, whatever exists on disk.
\<close>

theorem C6_bare_token_not_a_path:
  assumes "s \<notin> name ` set repositories"
    and "\<not> prefix ''/'' s" and "\<not> prefix ''~'' s" and "CHR '':'' \<notin> set s"
    and "\<not> prefix [BACKSLASH, BACKSLASH] s"
  shows "resolveRepoPath rt repositories w s = None"
proof -
  from assms(1) have "findRepository repositories s = None"
    by (simp add: findRepository_None_iff)
  with assms(2-5) show ?thesis
    by (simp add: resolveRepoPath_def)
qed

text \<open>On a disk where every path exists, \<open>proj\<close> still does not resolve.\<close>

theorem C6_bare_token_not_a_path_witness:
  "''proj'' \<notin> name ` set [\<lparr>name = ''app'', path = ''~/proj''\<rparr>] \<and>
   \<not> prefix ''/'' ''proj'' \<and> \<not> prefix ''~'' ''proj'' \<and> CHR '':'' \<notin> set ''proj'' \<and>
   \<not> prefix [BACKSLASH, BACKSLASH] ''proj'' \<and>
   fileExists (posix (\<lambda>w p. True) (\<lambda>w i. (Returns [], w)) Map.empty ''/home/u'') ()
     (path_join (posix (\<lambda>w p. True) (\<lambda>w i. (Returns [], w)) Map.empty ''/home/u'')
        ''proj'' SHADOWGIT_DIR) \<and>
   resolveRepoPath (posix (\<lambda>w p. True) (\<lambda>w i. (Returns [], w)) Map.empty ''/home/u'')
     [\<lparr>name = ''app'', path = ''~/proj''\<rparr>] () ''proj'' = None"
proof -
  have h1: "''proj'' \<notin> name ` set [\<lparr>name = ''app'', path = ''~/proj''\<rparr>]" by simp
  have h2: "\<not> prefix ''/'' ''proj''" by simp
  have h3: "\<not> prefix ''~'' ''proj''" by simp
  have h4: "CHR '':'' \<notin> set ''proj''" by simp
  have h5: "\<not> prefix [BACKSLASH, BACKSLASH] ''proj''" by (simp add: BACKSLASH_def)
  have e: "fileExists (posix (\<lambda>w p. True) (\<lambda>w i. (Returns [], w)) Map.empty ''/home/u'') ()
     (path_join (posix (\<lambda>w p. True) (\<lambda>w i. (Returns [], w)) Map.empty ''/home/u'')
        ''proj'' SHADOWGIT_DIR)"
    by (simp add: fileExists_def posix_def)
  from C6_bare_token_not_a_path
      [OF h1 h2 h3 h4 h5, of "posix (\<lambda>w p. True) (\<lambda>w i. (Returns [], w)) Map.empty ''/home/u''" "()"]
    h1 h2 h3 h4 h5 e show ?thesis by blast
qed

subsection \<open>C7: the quoted example\<close>

text \<open>
  C7. The external command string \<open>log -5 "release v1.0"\<close> is tokenized to the three tokens
  \<open>log\<close>, \<open>-5\<close> and \<open>release v1.0\<close>: unquoted whitespace separates tokens, the quoted span
  keeps its blank, and the quotes are not part of the token.
\<close>

theorem C7_tokenize_quoted_example:
  "parseCommand (Str (''log -5 '' @ [DQUOTE] @ ''release v1.0'' @ [DQUOTE])) False =
     Inr [''log'', ''-5'', ''release v1.0'']"
  by (simp add: parseCommand_def MAX_COMMAND_LENGTH_def tokenize_defs char_defs)

subsection \<open>C8: a timeout is classified first\<close>

text \<open>
  C8. When the invocation of git throws an object whose code is \<open>ETIMEDOUT\<close> or whose
  signal is \<open>SIGTERM\<close>, \<open>execute\<close> returns the timeout text, whatever diagnostic output,
  partial output or status the object also has. The number in the text is the configured
  timeout: the value that \<open>parseInt\<close> reads from \<open>SHADOWGIT_TIMEOUT\<close> in the process
  environment (from \<open>10000\<close> when the variable is unset or empty), for every configuration
  whose value is an integer of magnitude at most 2^53 or is not a number. When the
  configured string is a plain decimal numeral, the text carries that very numeral.
\<close>

theorem C8_timeout_classified_first:
  assumes "parseCommand cmd isInternal = Inr (gitCommand # rest)"
    and "\<not> list_ex isDangerousArg (gitCommand # rest)"
    and "isInternal \<or> gitCommand \<in> set SAFE_COMMANDS"
    and "existsSync rt (world st) (path_join rt repoPath SHADOWGIT_DIR)"
    and "fst (execFileSync rt (world st) (gitInvocation rt repoPath (gitCommand # rest) additionalEnv))
           = Throws (Object e)"
    and "code e = Some ''ETIMEDOUT'' \<or> signal e = Some ''SIGTERM''"
    and "configured =
           (case process_env rt ''SHADOWGIT_TIMEOUT'' of
              None \<Rightarrow> ''10000''
            | Some v \<Rightarrow> if v = [] then ''10000'' else v)"
    and "\<forall>i. parseInt configured = Num i \<longrightarrow> \<bar>i\<bar> \<le> 2 ^ 53"
  shows "fst (execute rt cmd repoPath isInternal additionalEnv st) =
           ''Error: Command timed out after '' @ numberToString (parseInt configured) @ ''ms.'' \<and>
         (list_all isDigit configured \<and> (configured = ''0'' \<or> \<not> prefix ''0'' configured) \<longrightarrow>
            fst (execute rt cmd repoPath isInternal additionalEnv st) =
              ''Error: Command timed out after '' @ configured @ ''ms.'')"
proof (intro conjI impI)
  have t: "TIMEOUT_MS rt = parseInt configured"
    by (simp add: TIMEOUT_MS_def assms(7))
  show g: "fst (execute rt cmd repoPath isInternal additionalEnv st) =
           ''Error: Command timed out after '' @ numberToString (parseInt configured) @ ''ms.''"
    using execute_accepted [OF assms(1-4), of additionalEnv] assms(5,6)
    by (auto simp: Let_def classifyError_def t)
  assume c: "list_all isDigit configured \<and> (configured = ''0'' \<or> \<not> prefix ''0'' configured)"
  have ne: "configured \<noteq> []"
    by (simp add: assms(7) split: option.splits)
  with c have p: "parseInt configured = Num (digitsValue configured 0)"
    by (simp add: parseInt_digits)
  from c have "0 \<le> digitsValue configured 0"
    by (simp add: digitsValue_nonneg)
  moreover from c ne have "showNat (nat (digitsValue configured 0)) = configured"
    by (simp add: showNat_decimal)
  ultimately have "numberToString (parseInt configured) = configured"
    by (simp add: p)
  with g show "fst (execute rt cmd repoPath isInternal additionalEnv st) =
              ''Error: Command timed out after '' @ configured @ ''ms.''"
    by simp
qed

text \<open>A timed-out \<open>log\<close> whose error also carries diagnostic output and a status: with
  \<open>SHADOWGIT_TIMEOUT=2500\<close> the text says 2500 ms, with the variable unset it says the
  default 10000 ms.\<close>

theorem C8_timeout_classified_first_witness:
  "parseCommand (Str ''log'') False = Inr [''log''] \<and>
   \<not> list_ex isDangerousArg [''log''] \<and>
   ''log'' \<in> set SAFE_COMMANDS \<and>
   code timedOut = Some ''ETIMEDOUT'' \<and>
   stderr timedOut \<noteq> Absent \<and>
   process_env (demoTimeout ''2500'' (\<lambda>i. Throws (Object timedOut))) ''SHADOWGIT_TIMEOUT'' = Some ''2500'' \<and>
   fst (execute (demoTimeout ''2500'' (\<lambda>i. Throws (Object timedOut))) (Str ''log'') ''/home/u/proj''
          False Map.empty st0) =
     ''Error: Command timed out after 2500ms.'' \<and>
   process_env (demo (\<lambda>i. Throws (Object timedOut))) ''SHADOWGIT_TIMEOUT'' = None \<and>
   fst (execute (demo (\<lambda>i. Throws (Object timedOut))) (Str ''log'') ''/home/u/proj'' False Map.empty st0) =
     ''Error: Command timed out after 10000ms.''"
proof -
  let ?git = "\<lambda>i :: invocation. Throws (Object timedOut)"
  let ?rt = "demoTimeout ''2500'' ?git"
  let ?rd = "demo ?git"
  have p: "parseCommand (Str ''log'') False = Inr [''log'']"
    by (simp add: parseCommand_def MAX_COMMAND_LENGTH_def tokenize_defs char_defs)
  have d: "\<not> list_ex isDangerousArg [''log'']" by code_simp
  have w: "''log'' \<in> set SAFE_COMMANDS" by (simp add: SAFE_COMMANDS_def)
  have c: "code timedOut = Some ''ETIMEDOUT''" by (simp add: timedOut_def)
  have s: "stderr timedOut \<noteq> Absent" by (simp add: timedOut_def)
  have m: "existsSync ?rt (world st0) (path_join ?rt ''/home/u/proj'' SHADOWGIT_DIR)"
    by (simp add: demoTimeout_simps demo_marker)
  have g: "fst (execFileSync ?rt (world st0) (gitInvocation ?rt ''/home/u/proj'' [''log''] Map.empty))
             = Throws (Object timedOut)"
    by (simp add: demoTimeout_simps)
  have e: "process_env ?rt ''SHADOWGIT_TIMEOUT'' = Some ''2500''"
    by (simp add: demoTimeout_simps)
  have k: "''2500'' = (case process_env ?rt ''SHADOWGIT_TIMEOUT'' of
              None \<Rightarrow> ''10000'' | Some v \<Rightarrow> if v = [] then ''10000'' else v)"
    by (simp add: e)
  have b: "\<forall>i. parseInt ''2500'' = Num i \<longrightarrow> \<bar>i\<bar> \<le> 2 ^ 53"
    by (simp add: parseInt_def char_defs)
  have a: "list_all isDigit ''2500'' \<and> (''2500'' = ''0'' \<or> \<not> prefix ''0'' ''2500'')"
    by (simp add: char_defs)
  note t = C8_timeout_classified_first [OF p d disjI2 [OF w] m g disjI1 [OF c] k b]
  from mp [OF t [THEN conjunct2] a]
  have r1: "fst (execute ?rt (Str ''log'') ''/home/u/proj'' False Map.empty st0) =
     ''Error: Command timed out after 2500ms.''"
    by simp
  have m': "existsSync ?rd (world st0) (path_join ?rd ''/home/u/proj'' SHADOWGIT_DIR)"
    by (simp add: demo_simps demo_marker)
  have g': "fst (execFileSync ?rd (world st0) (gitInvocation ?rd ''/home/u/proj'' [''log''] Map.empty))
             = Throws (Object timedOut)"
    by (simp add: demo_simps)
  have e': "process_env ?rd ''SHADOWGIT_TIMEOUT'' = None"
    by (simp add: demo_simps)
  have k': "''10000'' = (case process_env ?rd ''SHADOWGIT_TIMEOUT'' of
              None \<Rightarrow> ''10000'' | Some v \<Rightarrow> if v = [] then ''10000'' else v)"
    by (simp add: e')
  have b': "\<forall>i. parseInt ''10000'' = Num i \<longrightarrow> \<bar>i\<bar> \<le> 2 ^ 53"
    by (simp add: parseInt_def char_defs)
  have a': "list_all isDigit ''10000'' \<and> (''10000'' = ''0'' \<or> \<not> prefix ''0'' ''10000'')"
    by (simp add: char_defs)
  note t' = C8_timeout_classified_first [OF p d disjI2 [OF w] m' g' disjI1 [OF c] k' b']
  from mp [OF t' [THEN conjunct2] a']
  have r2: "fst (execute ?rd (Str ''log'') ''/home/u/proj'' False Map.empty st0) =
     ''Error: Command timed out after 10000ms.''"
    by simp
  from p d w c s e r1 e' r2 show ?thesis by blast
qed

subsection \<open>C9: the output of a successful invocation\<close>



subsection \<open>C10: a failed add does not stop the checkpoint\<close>

text \<open>
  C10. In the checkpoint sequence the guard after the add step tests only whether the
  outcome starts with \<open>Error:\<close>. When the status step has reported changes and the add
  step fails with a structured process failure (an object that is no timeout and carries
  diagnostic output, partial output or a status), the outcome of the add step starts with
  \<open>Error executing git command:\<close>, which does not start with \<open>Error:\<close>, and the handler
  goes on to the commit step: with the shadow store still in place and a commit message
  that passes the blacklist, the git binary is invoked with \<open>commit -m\<close>.
\<close>

theorem C10_add_failure_reaches_commit:
  assumes "arg_repo a = Some repo" and "arg_title a = Some title"
    and "length title \<le> 50" and "messageLength a \<le> 1000"
    and "resolveRepoPath rt repositories (world st) repo = Some repoPath" and "repoPath \<noteq> []"
    and "execute rt (Arr [''status'', ''--porcelain'']) repoPath True Map.empty st = (statusOutput, st1)"
    and "statusOutput \<noteq> []" and "\<not> trimIsEmpty statusOutput"
    and "statusOutput \<noteq> ''(empty output)''"
    and "existsSync rt (world st1) (path_join rt repoPath SHADOWGIT_DIR)"
    and "execFileSync rt (world st1) (gitInvocation rt repoPath [''add'', ''-A''] Map.empty) =
           (Throws (Object e), w2)"
    and "code e \<noteq> Some ''ETIMEDOUT''" and "signal e \<noteq> Some ''SIGTERM''"
    and "stderr e \<noteq> Absent \<or> stdout e \<noteq> Absent \<or> hasStatus e"
    and "\<not> isDangerousArg (fullMessage title (commitBodyOf a) (authorOf a))"
    and "existsSync rt w2 (path_join rt repoPath SHADOWGIT_DIR)"
  shows "prefix ''Error executing git command:''
           (fst (execute rt (Arr [''add'', ''-A'']) repoPath True Map.empty st1)) \<and>
         \<not> prefix ''Error:'' (fst (execute rt (Arr [''add'', ''-A'']) repoPath True Map.empty st1)) \<and>
         gitInvocation rt repoPath
             [''commit'', ''-m'', fullMessage title (commitBodyOf a) (authorOf a)]
             (commitEnv (authorOf a))
           \<in> set (calls (snd (handle rt repositories a st)))"
proof -
  let ?addInv = "gitInvocation rt repoPath [''add'', ''-A''] Map.empty"
  let ?msg = "fullMessage title (commitBodyOf a) (authorOf a)"
  let ?commitInv = "gitInvocation rt repoPath [''commit'', ''-m'', ?msg] (commitEnv (authorOf a))"
  let ?st2 = "\<lparr>world = w2, calls = calls st1 @ [?addInv]\<rparr>"
  let ?show = "Arr [''show'', ''--stat'', ''--format=short'', ''HEAD'']"
  have pa: "parseCommand (Arr [''add'', ''-A'']) True = Inr [''add'', ''-A'']"
    by (simp add: parseCommand_def)
  have da: "\<not> list_ex isDangerousArg [''add'', ''-A'']" by code_simp
  have add: "execute rt (Arr [''add'', ''-A'']) repoPath True Map.empty st1 =
               (classifyError rt (Object e), ?st2)"
    using execute_accepted [OF pa da _ assms(11), of Map.empty] assms(12)
    by (simp add: Let_def)
  have pc: "parseCommand (Arr [''commit'', ''-m'', ?msg]) True = Inr [''commit'', ''-m'', ?msg]"
    by (simp add: parseCommand_def)
  have "\<not> isDangerousArg ''commit''" "\<not> isDangerousArg ''-m''" by code_simp+
  with assms(16) have dc: "\<not> list_ex isDangerousArg [''commit'', ''-m'', ?msg]" by simp
  have m2: "existsSync rt (world ?st2) (path_join rt repoPath SHADOWGIT_DIR)"
    using assms(17) by simp
  obtain commitOutput st3 where
    commit: "execute rt (Arr [''commit'', ''-m'', ?msg]) repoPath True (commitEnv (authorOf a)) ?st2 =
               (commitOutput, st3)"
    by (cases "execute rt (Arr [''commit'', ''-m'', ?msg]) repoPath True (commitEnv (authorOf a)) ?st2")
  have "calls st3 = calls ?st2 @ [?commitInv]"
    using execute_accepted [OF pc dc _ m2, of "commitEnv (authorOf a)"] commit
    by (auto simp: Let_def split: exec_result.splits)
  then have in3: "?commitInv \<in> set (calls st3)" by simp
  obtain showOutput st4 where
    sh: "execute rt ?show repoPath True Map.empty st3 = (showOutput, st4)"
    by (cases "execute rt ?show repoPath True Map.empty st3")
  have in4: "?commitInv \<in> set (calls st4)"
    using execute_calls_extend [of rt ?show repoPath True Map.empty st3] sh in3 by auto
  have np: "\<not> prefix ''Error:'' (classifyError rt (Object e))"
    using assms(13-15) by (rule structured_text(2))
  have "snd (handle rt repositories a st) = (if prefix ''Error:'' commitOutput then st3 else st4)"
    using assms(1-10) add np commit sh
    by (simp add: handle_def Let_def)
  with in3 in4 have "?commitInv \<in> set (calls (snd (handle rt repositories a st)))"
    by simp
  moreover have "prefix ''Error executing git command:''
           (fst (execute rt (Arr [''add'', ''-A'']) repoPath True Map.empty st1))"
    using add structured_text(1) [OF assms(13-15)] by simp
  moreover have "\<not> prefix ''Error:'' (fst (execute rt (Arr [''add'', ''-A'']) repoPath True Map.empty st1))"
    using add np by simp
  ultimately show ?thesis by blast
qed

text \<open>
  A checkpoint of \<open>app\<close> on a machine where \<open>git add\<close> exits with an error: the commit is
  invoked all the same, and the handler reports a created checkpoint.
\<close>

theorem C10_add_failure_reaches_commit_witness:
  "gitInvocation (demo flakyGit) ''/home/u/proj''
       [''commit'', ''-m'', fullMessage ''Fix'' [] ''AI Assistant''] (commitEnv ''AI Assistant'')
     \<in> set (calls (snd (handle (demo flakyGit) [\<lparr>name = ''app'', path = ''~/proj''\<rparr>]
          \<lparr>arg_repo = Some ''app'', arg_title = Some ''Fix'', arg_message = None,
            arg_author = None\<rparr> st0))) \<and>
   fst (execute (demo flakyGit) (Arr [''add'', ''-A'']) ''/home/u/proj'' True Map.empty
          \<lparr>world = (),
            calls = [gitInvocation (demo flakyGit) ''/home/u/proj'' [''status'', ''--porcelain'']
                       Map.empty]\<rparr>) =
     ''Error executing git command:'' @ [NL] @ ''Command failed: git add -A'' @ [NL, NL]
       @ ''Error output:'' @ [NL] @ ''fatal: Unable to create index.lock'' @ [NL] \<and>
   fst (handle (demo flakyGit) [\<lparr>name = ''app'', path = ''~/proj''\<rparr>]
          \<lparr>arg_repo = Some ''app'', arg_title = Some ''Fix'', arg_message = None,
            arg_author = None\<rparr> st0) =
     CheckpointCreated ''[main abc1234] Fix'' ''[main abc1234] Fix'' (Some ''abc1234'')"
proof -
  let ?rt = "demo flakyGit"
  let ?repos = "[\<lparr>name = ''app'', path = ''~/proj''\<rparr>]"
  let ?a = "\<lparr>arg_repo = Some ''app'', arg_title = Some ''Fix'', arg_message = None,
             arg_author = None\<rparr>"
  let ?p = "''/home/u/proj''"
  let ?msg = "fullMessage ''Fix'' [] ''AI Assistant''"
  let ?show = "[''show'', ''--stat'', ''--format=short'', ''HEAD'']"
  let ?statusInv = "gitInvocation ?rt ?p [''status'', ''--porcelain''] Map.empty"
  let ?addInv = "gitInvocation ?rt ?p [''add'', ''-A''] Map.empty"
  let ?commitInv = "gitInvocation ?rt ?p [''commit'', ''-m'', ?msg] (commitEnv ''AI Assistant'')"
  let ?showInv = "gitInvocation ?rt ?p ?show Map.empty"
  let ?st1 = "\<lparr>world = (), calls = [?statusInv]\<rparr>"
  let ?st2 = "\<lparr>world = (), calls = [?statusInv, ?addInv]\<rparr>"
  let ?st3 = "\<lparr>world = (), calls = [?statusInv, ?addInv, ?commitInv]\<rparr>"
  let ?st4 = "\<lparr>world = (), calls = [?statusInv, ?addInv, ?commitInv, ?showInv]\<rparr>"
  let ?addText = "''Error executing git command:'' @ [NL] @ ''Command failed: git add -A'' @ [NL, NL]
       @ ''Error output:'' @ [NL] @ ''fatal: Unable to create index.lock'' @ [NL]"
  have body: "commitBodyOf ?a = []" by (simp add: commitBodyOf_def)
  have auth: "authorOf ?a = ''AI Assistant''" by (simp add: authorOf_def)
  have msg: "?msg = ''Fix'' @ [NL, NL] @ ''Author: AI Assistant (via ShadowGit MCP)''"
    by (simp add: fullMessage_def)
  have r: "resolveRepoPath ?rt ?repos (world st0) ''app'' = Some ?p"
    by (simp add: resolveRepoPath_def findRepository_def fileExists_def demo_simps
        demo_home demo_marker)
  have nd: "\<not> list_ex isDangerousArg [''status'', ''--porcelain'']"
    "\<not> list_ex isDangerousArg [''add'', ''-A'']"
    "\<not> list_ex isDangerousArg [''show'', ''--stat'', ''--format=short'', ''HEAD'']"
    "\<not> isDangerousArg (fullMessage ''Fix'' [] ''AI Assistant'')"
    by code_simp+
  have m: "existsSync ?rt w (path_join ?rt ?p SHADOWGIT_DIR)" for w
    by (simp add: demo_simps demo_marker)
  have ps: "parseCommand (Arr [''status'', ''--porcelain'']) True = Inr [''status'', ''--porcelain'']"
    by (simp add: parseCommand_def)
  have s: "execute ?rt (Arr [''status'', ''--porcelain'']) ?p True Map.empty st0 = ('' M a.txt'', ?st1)"
    using execute_accepted [OF ps nd(1) _ m, where st = st0 and additionalEnv = Map.empty]
    by (simp add: Let_def demo_simps st0_simps flakyGit_def gitInvocation_def)
  have g: "execFileSync ?rt (world ?st1) ?addInv = (Throws (Object addFailure), ())"
    by (simp add: demo_simps flakyGit_def gitInvocation_def)
  have e: "code addFailure \<noteq> Some ''ETIMEDOUT''" "signal addFailure \<noteq> Some ''SIGTERM''"
    "stderr addFailure \<noteq> Absent \<or> stdout addFailure \<noteq> Absent \<or> hasStatus addFailure"
    by (simp_all add: addFailure_def)
  have t: "\<not> trimIsEmpty '' M a.txt''"
    by (simp add: trimIsEmpty_def char_defs)
  note c10 = C10_add_failure_reaches_commit
    [where a = ?a and repo = "''app''" and title = "''Fix''" and rt = ?rt
      and repositories = ?repos and st = st0 and repoPath = ?p and statusOutput = "'' M a.txt''"
      and ?st1.0 = ?st1 and e = addFailure and ?w2.0 = "()"]
  have main: "?commitInv \<in> set (calls (snd (handle ?rt ?repos ?a st0)))"
    using c10 r s g e t nd(4) m
    by (simp add: body auth messageLength_def)
  have pa: "parseCommand (Arr [''add'', ''-A'']) True = Inr [''add'', ''-A'']"
    by (simp add: parseCommand_def)
  have ad: "execute ?rt (Arr [''add'', ''-A'']) ?p True Map.empty ?st1 = (?addText, ?st2)"
    using execute_accepted [OF pa nd(2) _ m, where st = ?st1 and additionalEnv = Map.empty]
    by (simp add: Let_def demo_simps flakyGit_def gitInvocation_def classifyError_def addFailure_def)
  have pc: "parseCommand (Arr [''commit'', ''-m'', ?msg]) True = Inr [''commit'', ''-m'', ?msg]"
    by (simp add: parseCommand_def)
  have "\<not> isDangerousArg ''commit''" "\<not> isDangerousArg ''-m''" by code_simp+
  with nd(4) have dc: "\<not> list_ex isDangerousArg [''commit'', ''-m'', ?msg]"
    by simp
  have cm: "execute ?rt (Arr [''commit'', ''-m'', ?msg]) ?p True (commitEnv ''AI Assistant'') ?st2 =
              (''[main abc1234] Fix'', ?st3)"
    using execute_accepted [OF pc dc _ m, where st = ?st2 and additionalEnv = "commitEnv ''AI Assistant''"]
    by (simp add: Let_def demo_simps flakyGit_def gitInvocation_def msg NL_def)
  have psh: "parseCommand (Arr ?show) True = Inr ?show"
    by (simp add: parseCommand_def)
  have sw: "execute ?rt (Arr ?show) ?p True Map.empty ?st3 = (''[main abc1234] Fix'', ?st4)"
    using execute_accepted [OF psh nd(3) _ m, where st = ?st3 and additionalEnv = Map.empty]
    by (simp add: Let_def demo_simps flakyGit_def gitInvocation_def)
  have h: "hashMatch ''[main abc1234] Fix'' = Some ''abc1234''"
    by (simp add: hashAt_def isWordOrDash_def isLowerHex_def charCode_def)
  have np: "\<not> prefix ''Error:'' ?addText" by simp
  have res: "fst (handle ?rt ?repos ?a st0) =
               CheckpointCreated ''[main abc1234] Fix'' ''[main abc1234] Fix'' (Some ''abc1234'')"
    using r s t ad cm sw h np
    by (simp add: handle_def Let_def body auth messageLength_def del: append.simps)
  from main ad res show ?thesis by simp
qed

end
